theory Spec2Isabelle
  imports
    Main
    "HOL-Library.AList"
    "HOL-Library.Char_ord"
    "HOL-Library.List_Lexorder"
    "HOL-Library.Sublist"
begin

section \<open>kor: unused ConfigMaps per namespace (pkg/kor/kor.go)\<close>

text \<open>
  A shallow embedding of \<^verbatim>\<open>pkg/kor/kor.go\<close>. Go strings are byte sequences and are
  modelled as \<^typ>\<open>string\<close>; the order \<^verbatim>\<open><\<close> of Go on strings is the byte-wise
  lexicographic order, which is the order of \<^typ>\<open>char list\<close> given by
  \<open>Char_ord\<close> and \<open>List_Lexorder\<close>. A Go slice is a list, \<^verbatim>\<open>append(s, x)\<close> is
  \<open>s @ [x]\<close>, and a \<^verbatim>\<open>nil\<close> slice is the empty list. A Go function with several
  results returns a tuple; its \<^verbatim>\<open>error\<close> result is an \<open>error option\<close>
  (\<open>None\<close> for \<^verbatim>\<open>nil\<close>).
\<close>

subsection \<open>Data read from the cluster\<close>

text \<open>
  Of the Kubernetes API types only the fields that the code reads are modelled; the other
  fields of a Pod specification, among them \<^verbatim>\<open>InitContainers\<close> and
  \<^verbatim>\<open>EphemeralContainers\<close>, are never read and are left out. The four
  ConfigMap sources (\<^verbatim>\<open>ConfigMapVolumeSource\<close>, \<^verbatim>\<open>ConfigMapProjection\<close>,
  \<^verbatim>\<open>ConfigMapKeySelector\<close>, \<^verbatim>\<open>ConfigMapEnvSource\<close>) all embed a
  \<^verbatim>\<open>LocalObjectReference\<close>, whose \<^verbatim>\<open>Name\<close> is the one field read. A Go pointer that
  is tested against \<^verbatim>\<open>nil\<close> is an \<open>option\<close>.
\<close>

record LocalObjectReference =
  Name :: string

record VolumeProjection =
  Projection_ConfigMap :: "LocalObjectReference option"

record ProjectedVolumeSource =
  Sources :: "VolumeProjection list"

record Volume =
  Volume_ConfigMap :: "LocalObjectReference option"
  Projected :: "ProjectedVolumeSource option"

record EnvVarSource =
  ConfigMapKeyRef :: "LocalObjectReference option"

record EnvVar =
  ValueFrom :: "EnvVarSource option"

record EnvFromSource =
  ConfigMapRef :: "LocalObjectReference option"

record Container =
  Env :: "EnvVar list"
  EnvFrom :: "EnvFromSource list"

record PodSpec =
  Volumes :: "Volume list"
  Containers :: "Container list"

record Pod =
  Spec :: PodSpec

record ConfigMap =
  ConfigMap_Name :: string

record Namespace =
  Namespace_Name :: string

datatype error = Error string

text \<open>
  The client set is used through three listing calls only; each either fails or returns the
  items of the list.
\<close>

record Clientset =
  Pods_List :: "string \<Rightarrow> error + Pod list"
  ConfigMaps_List :: "string \<Rightarrow> error + ConfigMap list"
  Namespaces_List :: "error + Namespace list"

subsection \<open>removeDuplicatesAndSort\<close>

text \<open>
  \<^verbatim>\<open>uniqueSet\<close> is a Go \<^verbatim>\<open>map[string]bool\<close>: an association list with one entry per
  key, \<^verbatim>\<open>uniqueSet[item] = true\<close> being \<^const>\<open>AList.update\<close>. The statement
  \<^verbatim>\<open>for item := range uniqueSet\<close> visits every key once, in an order that the Go runtime
  chooses. That choice is the parameter \<open>iter\<close>: it maps the keys of the map to the
  sequence in which the loop visits them. \<open>range_order_ok\<close> is what the language
  guarantees about it.
\<close>

type_synonym range_order = "string list \<Rightarrow> string list"

definition range_order_ok :: "range_order \<Rightarrow> bool" where
  "range_order_ok iter \<longleftrightarrow>
     (\<forall>keys. distinct keys \<longrightarrow> distinct (iter keys) \<and> set (iter keys) = set keys)"

text \<open>\<^verbatim>\<open>sort.Strings\<close> sorts in increasing order; strings that compare equal are equal.\<close>

definition sort_Strings :: "string list \<Rightarrow> string list" where
  "sort_Strings x = sort x"

definition removeDuplicatesAndSort :: "range_order \<Rightarrow> string list \<Rightarrow> string list" where
  "removeDuplicatesAndSort iter slice =
     (let uniqueSet = fold (\<lambda>item uniqueSet. AList.update item True uniqueSet) slice [];
          uniqueSlice = fold (\<lambda>item uniqueSlice. uniqueSlice @ [item]) (iter (map fst uniqueSet)) []
      in sort_Strings uniqueSlice)"

subsection \<open>calculateDifference\<close>

text \<open>The inner loop, with its \<^verbatim>\<open>found\<close> flag and \<^verbatim>\<open>break\<close>.\<close>

fun found_in :: "string \<Rightarrow> string list \<Rightarrow> bool" where
  "found_in name [] = False"
| "found_in name (usedName # rest) = (if name = usedName then True else found_in name rest)"

definition calculateDifference :: "string list \<Rightarrow> string list \<Rightarrow> string list" where
  "calculateDifference usedConfigMaps configMapNames =
     fold (\<lambda>name difference.
             if \<not> found_in name usedConfigMaps then difference @ [name] else difference)
          configMapNames []"

subsection \<open>formatOutput\<close>

text \<open>
  \<^verbatim>\<open>fmt.Sprintf("%d", n)\<close> for an index \<open>n\<close>, which is never negative: the decimal
  digits of \<open>n\<close>, most significant first.
\<close>

definition digit :: "nat \<Rightarrow> char" where
  "digit d = char_of (48 + d)"

fun Sprintf_d :: "nat \<Rightarrow> string" where
  "Sprintf_d n = (if n < 10 then [digit n] else Sprintf_d (n div 10) @ [digit (n mod 10)])"

declare Sprintf_d.simps [simp del]

text \<open>
  The table of \<^verbatim>\<open>github.com/olekukonko/tablewriter\<close> is the header set by
  \<^verbatim>\<open>SetHeader\<close> and the rows added by \<^verbatim>\<open>Append\<close>. \<^verbatim>\<open>Render\<close> belongs to that
  library; what it writes to the buffer is the parameter \<open>render\<close> applied to the table.
\<close>

record Table =
  headers :: "string list"
  lines :: "string list list"

definition NewWriter :: Table where
  "NewWriter = \<lparr>headers = [], lines = []\<rparr>"

definition SetHeader :: "string list \<Rightarrow> Table \<Rightarrow> Table" where
  "SetHeader keys t = t\<lparr>headers := keys\<rparr>"

definition Append :: "string list \<Rightarrow> Table \<Rightarrow> Table" where
  "Append row t = t\<lparr>lines := lines t @ [row]\<rparr>"

definition newline :: string where
  "newline = [CHR 0x0A]"

definition formatOutput :: "(Table \<Rightarrow> string) \<Rightarrow> string \<Rightarrow> string list \<Rightarrow> string" where
  "formatOutput render namespace configMapNames =
     (if length configMapNames = 0
      then ''No unused config maps found in the namespace: '' @ namespace
      else
        let table = SetHeader [''#'', ''Config Map Name''] NewWriter;
            table = fold (\<lambda>(i, name) table. Append [Sprintf_d (i + 1), name] table)
                      (enumerate 0 configMapNames) table;
            buf = render table
        in ''Unused Config Maps in Namespace: '' @ namespace @ newline @ buf)"

subsection \<open>retrieveVolumesAndEnv\<close>

text \<open>
  The five slices that the function fills, in the order in which it returns them:
  \<^verbatim>\<open>volumesCM\<close>, \<^verbatim>\<open>volumesProjectedCM\<close>, \<^verbatim>\<open>envCM\<close>, \<^verbatim>\<open>envFromCM\<close>,
  \<^verbatim>\<open>envFromContainerCM\<close>. Every loop is a \<^const>\<open>fold\<close> of its body over the
  slice it ranges over.
\<close>

type_synonym Refs = "string list \<times> string list \<times> string list \<times> string list \<times> string list"

fun projected_source_body :: "VolumeProjection \<Rightarrow> Refs \<Rightarrow> Refs" where
  "projected_source_body source (volumesCM, volumesProjectedCM, envCM, envFromCM, envFromContainerCM) =
     (case Projection_ConfigMap source of
        Some cm \<Rightarrow> (volumesCM, volumesProjectedCM @ [Name cm], envCM, envFromCM, envFromContainerCM)
      | None \<Rightarrow> (volumesCM, volumesProjectedCM, envCM, envFromCM, envFromContainerCM))"

fun volume_ConfigMap_body :: "Volume \<Rightarrow> Refs \<Rightarrow> Refs" where
  "volume_ConfigMap_body volume (volumesCM, volumesProjectedCM, envCM, envFromCM, envFromContainerCM) =
     (case Volume_ConfigMap volume of
        Some cm \<Rightarrow> (volumesCM @ [Name cm], volumesProjectedCM, envCM, envFromCM, envFromContainerCM)
      | None \<Rightarrow> (volumesCM, volumesProjectedCM, envCM, envFromCM, envFromContainerCM))"

definition volume_body :: "Volume \<Rightarrow> Refs \<Rightarrow> Refs" where
  "volume_body volume r =
     (let r = volume_ConfigMap_body volume r
      in case Projected volume of
           Some projected \<Rightarrow> fold projected_source_body (Sources projected) r
         | None \<Rightarrow> r)"

fun env_body :: "EnvVar \<Rightarrow> Refs \<Rightarrow> Refs" where
  "env_body env (volumesCM, volumesProjectedCM, envCM, envFromCM, envFromContainerCM) =
     (case ValueFrom env of
        None \<Rightarrow> (volumesCM, volumesProjectedCM, envCM, envFromCM, envFromContainerCM)
      | Some valueFrom \<Rightarrow>
          (case ConfigMapKeyRef valueFrom of
             None \<Rightarrow> (volumesCM, volumesProjectedCM, envCM, envFromCM, envFromContainerCM)
           | Some ref \<Rightarrow>
               (volumesCM, volumesProjectedCM, envCM @ [Name ref], envFromCM, envFromContainerCM)))"

text \<open>The first loop over \<^verbatim>\<open>container.EnvFrom\<close> (lines 59 to 63).\<close>

fun envFrom_body :: "EnvFromSource \<Rightarrow> Refs \<Rightarrow> Refs" where
  "envFrom_body envFrom (volumesCM, volumesProjectedCM, envCM, envFromCM, envFromContainerCM) =
     (case ConfigMapRef envFrom of
        Some ref \<Rightarrow>
          (volumesCM, volumesProjectedCM, envCM, envFromCM @ [Name ref], envFromContainerCM)
      | None \<Rightarrow> (volumesCM, volumesProjectedCM, envCM, envFromCM, envFromContainerCM))"

text \<open>The second loop over \<^verbatim>\<open>container.EnvFrom\<close> (lines 64 to 68).\<close>

fun envFrom_body2 :: "EnvFromSource \<Rightarrow> Refs \<Rightarrow> Refs" where
  "envFrom_body2 envFrom (volumesCM, volumesProjectedCM, envCM, envFromCM, envFromContainerCM) =
     (case ConfigMapRef envFrom of
        Some ref \<Rightarrow>
          (volumesCM, volumesProjectedCM, envCM, envFromCM, envFromContainerCM @ [Name ref])
      | None \<Rightarrow> (volumesCM, volumesProjectedCM, envCM, envFromCM, envFromContainerCM))"

definition container_body :: "Container \<Rightarrow> Refs \<Rightarrow> Refs" where
  "container_body container r =
     (let r = fold env_body (Env container) r;
          r = fold envFrom_body (EnvFrom container) r
      in fold envFrom_body2 (EnvFrom container) r)"

definition pod_body :: "Pod \<Rightarrow> Refs \<Rightarrow> Refs" where
  "pod_body pod r =
     (let r = fold volume_body (Volumes (Spec pod)) r
      in fold container_body (Containers (Spec pod)) r)"

definition retrieveVolumesAndEnv ::
  "Clientset \<Rightarrow> string \<Rightarrow>
     string list \<times> string list \<times> string list \<times> string list \<times> string list \<times> error option"
where
  "retrieveVolumesAndEnv clientset namespace =
     (let r = ([], [], [], [], [])
      in case Pods_List clientset namespace of
           Inl err \<Rightarrow> ([], [], [], [], [], Some err)
         | Inr pods \<Rightarrow>
             (case fold pod_body pods r of
                (volumesCM, volumesProjectedCM, envCM, envFromCM, envFromContainerCM) \<Rightarrow>
                  (volumesCM, volumesProjectedCM, envCM, envFromCM, envFromContainerCM, None)))"

subsection \<open>retrieveConfigMapNames\<close>

definition retrieveConfigMapNames :: "Clientset \<Rightarrow> string \<Rightarrow> string list \<times> error option" where
  "retrieveConfigMapNames clientset namespace =
     (case ConfigMaps_List clientset namespace of
        Inl err \<Rightarrow> ([], Some err)
      | Inr configmaps \<Rightarrow>
          (fold (\<lambda>configmap names. names @ [ConfigMap_Name configmap]) configmaps [], None))"

subsection \<open>processNamespace\<close>

definition processNamespace ::
  "range_order \<Rightarrow> (Table \<Rightarrow> string) \<Rightarrow> Clientset \<Rightarrow> string \<Rightarrow> string \<times> error option"
where
  "processNamespace iter render clientset namespace =
     (case retrieveVolumesAndEnv clientset namespace of
        (volumesCM, volumesProjectedCM, envCM, envFromCM, envFromContainerCM, Some err) \<Rightarrow>
          ('''', Some err)
      | (volumesCM, volumesProjectedCM, envCM, envFromCM, envFromContainerCM, None) \<Rightarrow>
          (let volumesCM = removeDuplicatesAndSort iter volumesCM;
               volumesProjectedCM = removeDuplicatesAndSort iter volumesProjectedCM;
               envCM = removeDuplicatesAndSort iter envCM;
               envFromCM = removeDuplicatesAndSort iter envFromCM;
               envFromContainerCM = removeDuplicatesAndSort iter envFromContainerCM
           in (case retrieveConfigMapNames clientset namespace of
                 (configMapNames, Some err) \<Rightarrow> ('''', Some err)
               | (configMapNames, None) \<Rightarrow>
                   (let usedConfigMaps =
                          (((volumesCM @ volumesProjectedCM) @ envCM) @ envFromCM)
                            @ envFromContainerCM;
                        diff = calculateDifference usedConfigMaps configMapNames
                    in (formatOutput render namespace diff, None)))))"

subsection \<open>GetUnusedConfigmaps\<close>

text \<open>
  What the process has written when it ends: standard output, standard error, and the
  status of \<^verbatim>\<open>os.Exit\<close> if it was called. The host gives the home directory, the
  path join of \<^verbatim>\<open>path/filepath\<close> and the two constructors of the client library.
\<close>

record Process =
  stdout :: string
  stderr :: string
  exit_status :: "nat option"

record 'config Host =
  HomeDir :: string
  filepath_Join :: "string list \<Rightarrow> string"
  BuildConfigFromFlags :: "string \<Rightarrow> string \<Rightarrow> error + 'config"
  NewForConfig :: "'config \<Rightarrow> error + Clientset"

fun Error_text :: "error \<Rightarrow> string" where
  "Error_text (Error msg) = msg"

definition getKubeConfigPath :: "'config Host \<Rightarrow> string" where
  "getKubeConfigPath host =
     (let home = HomeDir host in filepath_Join host [home, ''.kube'', ''config''])"

text \<open>The body of the loop over the namespaces, on the two output streams.\<close>

fun namespace_body ::
  "range_order \<Rightarrow> (Table \<Rightarrow> string) \<Rightarrow> Clientset \<Rightarrow> string \<Rightarrow> string \<times> string \<Rightarrow> string \<times> string"
where
  "namespace_body iter render clientset namespace (out, errs) =
     (case processNamespace iter render clientset namespace of
        (output, Some err) \<Rightarrow>
          (out,
           errs @ ''Failed to process namespace '' @ namespace @ '': '' @ Error_text err @ newline)
      | (output, None) \<Rightarrow> ((out @ output @ newline) @ newline, errs))"

definition GetUnusedConfigmaps ::
  "range_order \<Rightarrow> (Table \<Rightarrow> string) \<Rightarrow> 'config Host \<Rightarrow> Process"
where
  "GetUnusedConfigmaps iter render host =
     (let kubeconfig = getKubeConfigPath host
      in case BuildConfigFromFlags host '''' kubeconfig of
           Inl err \<Rightarrow>
             \<lparr>stdout = '''',
              stderr = ''Failed to load kubeconfig: '' @ Error_text err @ newline,
              exit_status = Some 1\<rparr>
         | Inr config \<Rightarrow>
             (case NewForConfig host config of
                Inl err \<Rightarrow>
                  \<lparr>stdout = '''',
                   stderr = ''Failed to create Kubernetes client: '' @ Error_text err @ newline,
                   exit_status = Some 1\<rparr>
              | Inr clientset \<Rightarrow>
                  (case Namespaces_List clientset of
                     Inl err \<Rightarrow>
                       \<lparr>stdout = '''',
                        stderr = ''Failed to retrieve namespaces: '' @ Error_text err @ newline,
                        exit_status = Some 1\<rparr>
                   | Inr namespaceList \<Rightarrow>
                       let namespaces =
                             fold (\<lambda>ns namespaces. namespaces @ [Namespace_Name ns]) namespaceList [];
                           (out, errs) =
                             fold (namespace_body iter render clientset) namespaces ('''', '''')
                       in \<lparr>stdout = out, stderr = errs, exit_status = None\<rparr>)))"

subsection \<open>The references of a Pod, by mechanism\<close>

text \<open>
  What the specification calls the four mechanisms by which a Pod references a ConfigMap
  \<open>c\<close>: the ConfigMap source of a volume, a ConfigMap source of a projected volume, the
  ConfigMap key reference of a container's environment variable, and the ConfigMap reference
  of a container's \<^verbatim>\<open>envFrom\<close> entry. These predicates follow the specification's
  words; they are what the code is compared with.
\<close>

definition references_via_volume :: "Pod \<Rightarrow> string \<Rightarrow> bool" where
  "references_via_volume pod c \<longleftrightarrow>
     (\<exists>volume \<in> set (Volumes (Spec pod)).
        case Volume_ConfigMap volume of Some cm \<Rightarrow> Name cm = c | None \<Rightarrow> False)"

definition references_via_projected :: "Pod \<Rightarrow> string \<Rightarrow> bool" where
  "references_via_projected pod c \<longleftrightarrow>
     (\<exists>volume \<in> set (Volumes (Spec pod)).
        case Projected volume of
          Some projected \<Rightarrow>
            (\<exists>source \<in> set (Sources projected).
               case Projection_ConfigMap source of Some cm \<Rightarrow> Name cm = c | None \<Rightarrow> False)
        | None \<Rightarrow> False)"

definition references_via_env :: "Pod \<Rightarrow> string \<Rightarrow> bool" where
  "references_via_env pod c \<longleftrightarrow>
     (\<exists>container \<in> set (Containers (Spec pod)).
        \<exists>env \<in> set (Env container).
          case ValueFrom env of
            Some valueFrom \<Rightarrow>
              (case ConfigMapKeyRef valueFrom of Some ref \<Rightarrow> Name ref = c | None \<Rightarrow> False)
          | None \<Rightarrow> False)"

definition references_via_envFrom :: "Pod \<Rightarrow> string \<Rightarrow> bool" where
  "references_via_envFrom pod c \<longleftrightarrow>
     (\<exists>container \<in> set (Containers (Spec pod)).
        \<exists>envFrom \<in> set (EnvFrom container).
          case ConfigMapRef envFrom of Some ref \<Rightarrow> Name ref = c | None \<Rightarrow> False)"

definition pod_references :: "Pod \<Rightarrow> string \<Rightarrow> bool" where
  "pod_references pod c \<longleftrightarrow>
     references_via_volume pod c \<or> references_via_projected pod c \<or>
     references_via_env pod c \<or> references_via_envFrom pod c"

subsection \<open>The contents of the five slices\<close>

text \<open>
  The names that one volume, one projected source, one environment variable and one
  \<^verbatim>\<open>envFrom\<close> entry contribute, in the order in which the loops append them. They
  describe the result of the loops of \<^const>\<open>retrieveVolumesAndEnv\<close> in closed form.
\<close>

definition volume_names :: "Volume \<Rightarrow> string list" where
  "volume_names volume = (case Volume_ConfigMap volume of Some cm \<Rightarrow> [Name cm] | None \<Rightarrow> [])"

definition source_names :: "VolumeProjection \<Rightarrow> string list" where
  "source_names source =
     (case Projection_ConfigMap source of Some cm \<Rightarrow> [Name cm] | None \<Rightarrow> [])"

definition projected_names :: "Volume \<Rightarrow> string list" where
  "projected_names volume =
     (case Projected volume of
        Some projected \<Rightarrow> concat (map source_names (Sources projected))
      | None \<Rightarrow> [])"

definition env_names :: "EnvVar \<Rightarrow> string list" where
  "env_names env =
     (case ValueFrom env of
        None \<Rightarrow> []
      | Some valueFrom \<Rightarrow>
          (case ConfigMapKeyRef valueFrom of None \<Rightarrow> [] | Some ref \<Rightarrow> [Name ref]))"

definition envFrom_names :: "EnvFromSource \<Rightarrow> string list" where
  "envFrom_names envFrom = (case ConfigMapRef envFrom of Some ref \<Rightarrow> [Name ref] | None \<Rightarrow> [])"

definition pods_volume_names :: "Pod list \<Rightarrow> string list" where
  "pods_volume_names pods =
     concat (map (\<lambda>pod. concat (map volume_names (Volumes (Spec pod)))) pods)"

definition pods_projected_names :: "Pod list \<Rightarrow> string list" where
  "pods_projected_names pods =
     concat (map (\<lambda>pod. concat (map projected_names (Volumes (Spec pod)))) pods)"

definition pods_env_names :: "Pod list \<Rightarrow> string list" where
  "pods_env_names pods =
     concat (map (\<lambda>pod. concat (map (\<lambda>container. concat (map env_names (Env container)))
                                     (Containers (Spec pod)))) pods)"

definition pods_envFrom_names :: "Pod list \<Rightarrow> string list" where
  "pods_envFrom_names pods =
     concat (map (\<lambda>pod. concat (map (\<lambda>container. concat (map envFrom_names (EnvFrom container)))
                                     (Containers (Spec pod)))) pods)"

subsection \<open>The unused names of a namespace\<close>

text \<open>
  The value of the local variable \<^verbatim>\<open>diff\<close> of \<^verbatim>\<open>processNamespace\<close> when both listing
  calls succeed: the references are collected, every slice is deduplicated and sorted, the
  five results are concatenated, and the inventory is filtered against them.
\<close>

definition unused_names :: "range_order \<Rightarrow> Clientset \<Rightarrow> string \<Rightarrow> string list" where
  "unused_names iter clientset namespace =
     (case retrieveVolumesAndEnv clientset namespace of
        (volumesCM, volumesProjectedCM, envCM, envFromCM, envFromContainerCM, err) \<Rightarrow>
          calculateDifference
            ((((removeDuplicatesAndSort iter volumesCM
                  @ removeDuplicatesAndSort iter volumesProjectedCM)
                 @ removeDuplicatesAndSort iter envCM)
                @ removeDuplicatesAndSort iter envFromCM)
               @ removeDuplicatesAndSort iter envFromContainerCM)
            (fst (retrieveConfigMapNames clientset namespace)))"

subsection \<open>What a namespace contributes to the output streams\<close>

text \<open>
  The specification's reading of the driver loop: a namespace whose Pod listing or ConfigMap
  listing fails contributes nothing to standard output and one message to standard error; any
  other namespace contributes its report and a blank line to standard output and nothing to
  standard error.
\<close>

definition namespace_report ::
  "range_order \<Rightarrow> (Table \<Rightarrow> string) \<Rightarrow> Clientset \<Rightarrow> string \<Rightarrow> string"
where
  "namespace_report iter render clientset namespace =
     (case Pods_List clientset namespace of
        Inl err \<Rightarrow> ''''
      | Inr pods \<Rightarrow>
          (case ConfigMaps_List clientset namespace of
             Inl err \<Rightarrow> ''''
           | Inr configmaps \<Rightarrow>
               formatOutput render namespace (unused_names iter clientset namespace)
                 @ newline @ newline))"

definition failure_message :: "string \<Rightarrow> error \<Rightarrow> string" where
  "failure_message namespace err =
     ''Failed to process namespace '' @ namespace @ '': '' @ Error_text err @ newline"

definition namespace_failure :: "Clientset \<Rightarrow> string \<Rightarrow> string" where
  "namespace_failure clientset namespace =
     (case Pods_List clientset namespace of
        Inl err \<Rightarrow> failure_message namespace err
      | Inr pods \<Rightarrow>
          (case ConfigMaps_List clientset namespace of
             Inl err \<Rightarrow> failure_message namespace err
           | Inr configmaps \<Rightarrow> ''''))"

subsection \<open>An example cluster\<close>

text \<open>
  Namespace \<open>default\<close> has two Pods that use all four mechanisms, some names more than
  once, and six ConfigMaps of which two are unused. Namespace \<open>jobs\<close> has the same Pods
  and no ConfigMaps. Namespace \<open>kube-system\<close> cannot list
  its Pods, \<open>staging\<close> cannot list its ConfigMaps, \<open>legacy\<close> lists its ConfigMaps out of
  order and one of them twice, and every other namespace is empty.
\<close>

definition cm_ref :: "string \<Rightarrow> LocalObjectReference option" where
  "cm_ref name = Some \<lparr>Name = name\<rparr>"

definition example_pods :: "Pod list" where
  "example_pods =
     [\<lparr>Spec = \<lparr>Volumes =
                 [\<lparr>Volume_ConfigMap = cm_ref ''app-config'', Projected = None\<rparr>,
                  \<lparr>Volume_ConfigMap = None,
                   Projected = Some \<lparr>Sources = [\<lparr>Projection_ConfigMap = cm_ref ''proj-cm''\<rparr>,
                                               \<lparr>Projection_ConfigMap = None\<rparr>]\<rparr>\<rparr>],
               Containers =
                 [\<lparr>Env = [\<lparr>ValueFrom = Some \<lparr>ConfigMapKeyRef = cm_ref ''env-cm''\<rparr>\<rparr>,
                          \<lparr>ValueFrom = None\<rparr>,
                          \<lparr>ValueFrom = Some \<lparr>ConfigMapKeyRef = None\<rparr>\<rparr>],
                   EnvFrom = [\<lparr>ConfigMapRef = cm_ref ''db-secrets''\<rparr>,
                              \<lparr>ConfigMapRef = None\<rparr>,
                              \<lparr>ConfigMapRef = cm_ref ''app-config''\<rparr>]\<rparr>]\<rparr>\<rparr>,
      \<lparr>Spec = \<lparr>Volumes = [\<lparr>Volume_ConfigMap = cm_ref ''app-config'', Projected = None\<rparr>],
               Containers =
                 [\<lparr>Env = [], EnvFrom = [\<lparr>ConfigMapRef = cm_ref ''db-secrets''\<rparr>]\<rparr>,
                  \<lparr>Env = [], EnvFrom = [\<lparr>ConfigMapRef = cm_ref ''db-secrets''\<rparr>]\<rparr>]\<rparr>\<rparr>]"

definition example_configmaps :: "ConfigMap list" where
  "example_configmaps =
     [\<lparr>ConfigMap_Name = ''another-unused''\<rparr>, \<lparr>ConfigMap_Name = ''app-config''\<rparr>,
      \<lparr>ConfigMap_Name = ''db-secrets''\<rparr>, \<lparr>ConfigMap_Name = ''env-cm''\<rparr>,
      \<lparr>ConfigMap_Name = ''proj-cm''\<rparr>, \<lparr>ConfigMap_Name = ''unused-cm''\<rparr>]"

definition legacy_configmaps :: "ConfigMap list" where
  "legacy_configmaps =
     [\<lparr>ConfigMap_Name = ''zeta-config''\<rparr>, \<lparr>ConfigMap_Name = ''alpha-config''\<rparr>,
      \<lparr>ConfigMap_Name = ''alpha-config''\<rparr>]"

definition example_clientset :: Clientset where
  "example_clientset =
     \<lparr>Pods_List =
        (\<lambda>namespace.
           if namespace = ''default'' \<or> namespace = ''jobs'' then Inr example_pods
           else if namespace = ''kube-system'' then Inl (Error ''pods is forbidden'')
           else Inr []),
      ConfigMaps_List =
        (\<lambda>namespace.
           if namespace = ''default'' then Inr example_configmaps
           else if namespace = ''staging'' then Inl (Error ''request timed out'')
           else if namespace = ''legacy'' then Inr legacy_configmaps
           else Inr []),
      Namespaces_List =
        Inr [\<lparr>Namespace_Name = ''kube-system''\<rparr>, \<lparr>Namespace_Name = ''default''\<rparr>,
             \<lparr>Namespace_Name = ''staging''\<rparr>, \<lparr>Namespace_Name = ''empty-ns''\<rparr>]\<rparr>"

text \<open>A renderer that writes one line per row, the cells separated by a bar.\<close>

definition example_render :: "Table \<Rightarrow> string" where
  "example_render table =
     concat (map (\<lambda>row. concat (map (\<lambda>cell. ''| '' @ cell @ '' '') row) @ ''|'' @ newline)
               (headers table # lines table))"

definition example_host :: "unit Host" where
  "example_host =
     \<lparr>HomeDir = ''/home/kor'',
      filepath_Join = (\<lambda>elem. concat (map (\<lambda>e. ''/'' @ e) elem)),
      BuildConfigFromFlags = (\<lambda>masterUrl kubeconfigPath. Inr ()),
      NewForConfig = (\<lambda>config. Inr example_clientset)\<rparr>"

subsection \<open>Reading a decimal numeral\<close>

text \<open>The number that a string of decimal digits denotes; the inverse of \<^const>\<open>Sprintf_d\<close>.\<close>

definition decimal_value :: "string \<Rightarrow> nat" where
  "decimal_value s = fold (\<lambda>c v. 10 * v + (of_char c - 48)) s 0"

subsection \<open>Lexicographic order\<close>

text \<open>
  A list of strings is sorted lexicographically when each string is equal to, or comes
  before, every later one in the lexicographic order over the values of their bytes (a
  proper prefix comes first). This is the order of \<^verbatim>\<open>sort.Strings\<close>.
\<close>

definition sorted_lexicographically :: "string list \<Rightarrow> bool" where
  "sorted_lexicographically names \<longleftrightarrow>
     sorted_wrt (\<lambda>a b. a = b \<or> (a, b) \<in> lexord {(c, d). (of_char c :: nat) < of_char d}) names"

section \<open>Properties\<close>

subsection \<open>The loops in closed form\<close>

lemma fold_snoc: "fold (\<lambda>item acc. acc @ [item]) xs acc = acc @ xs"
  by (induction xs arbitrary: acc) simp_all

lemma uniqueSet_keys:
  "fst ` set (fold (\<lambda>item uniqueSet. AList.update item True uniqueSet) slice m)
     = set slice \<union> fst ` set m"
  by (induction slice arbitrary: m) (auto simp: dom_update)

lemma uniqueSet_distinct:
  "distinct (map fst m) \<Longrightarrow>
   distinct (map fst (fold (\<lambda>item uniqueSet. AList.update item True uniqueSet) slice m))"
  by (induction slice arbitrary: m) (simp_all add: distinct_update)

lemma removeDuplicatesAndSort_eq:
  assumes "range_order_ok iter"
  shows "removeDuplicatesAndSort iter slice = sorted_list_of_set (set slice)"
proof -
  let ?keys = "map fst (fold (\<lambda>item uniqueSet. AList.update item True uniqueSet) slice [])"
  have d: "distinct ?keys"
    by (rule uniqueSet_distinct) simp
  have s: "set ?keys = set slice"
    using uniqueSet_keys [of slice "[]"] by simp
  from assms d have "distinct (iter ?keys)" and "set (iter ?keys) = set ?keys"
    by (simp_all add: range_order_ok_def)
  with s have "sort (iter ?keys) = sorted_list_of_set (set slice)"
    by (metis sorted_list_of_set_sort_remdups distinct_remdups_id)
  then show ?thesis
    by (simp add: removeDuplicatesAndSort_def sort_Strings_def fold_snoc)
qed

lemma found_in_iff: "found_in name used \<longleftrightarrow> name \<in> set used"
  by (induction used) auto

lemma difference_loop:
  "fold (\<lambda>name difference. if \<not> found_in name used then difference @ [name] else difference)
        xs acc
     = acc @ filter (\<lambda>name. name \<notin> set used) xs"
  by (induction xs arbitrary: acc) (simp_all add: found_in_iff)

lemma calculateDifference_filter:
  "calculateDifference used names = filter (\<lambda>name. name \<notin> set used) names"
  by (simp add: calculateDifference_def difference_loop)

lemma fold_projected_source_body:
  "fold projected_source_body sources (a, b, c, d, e)
     = (a, b @ concat (map source_names sources), c, d, e)"
  by (induction sources arbitrary: b) (simp_all add: source_names_def split: option.splits)

lemma volume_body_eq:
  "volume_body volume (a, b, c, d, e) = (a @ volume_names volume, b @ projected_names volume, c, d, e)"
  by (simp add: volume_body_def volume_names_def projected_names_def fold_projected_source_body
           split: option.splits)

lemma fold_volume_body:
  "fold volume_body volumes (a, b, c, d, e)
     = (a @ concat (map volume_names volumes), b @ concat (map projected_names volumes), c, d, e)"
  by (induction volumes arbitrary: a b) (simp_all add: volume_body_eq)

lemma fold_env_body:
  "fold env_body envs (a, b, c, d, e) = (a, b, c @ concat (map env_names envs), d, e)"
  by (induction envs arbitrary: c) (simp_all add: env_names_def split: option.splits)

lemma fold_envFrom_body:
  "fold envFrom_body envFroms (a, b, c, d, e)
     = (a, b, c, d @ concat (map envFrom_names envFroms), e)"
  by (induction envFroms arbitrary: d) (simp_all add: envFrom_names_def split: option.splits)

lemma fold_envFrom_body2:
  "fold envFrom_body2 envFroms (a, b, c, d, e)
     = (a, b, c, d, e @ concat (map envFrom_names envFroms))"
  by (induction envFroms arbitrary: e) (simp_all add: envFrom_names_def split: option.splits)

lemma container_body_eq:
  "container_body container (a, b, c, d, e)
     = (a, b, c @ concat (map env_names (Env container)),
        d @ concat (map envFrom_names (EnvFrom container)),
        e @ concat (map envFrom_names (EnvFrom container)))"
  by (simp add: container_body_def fold_env_body fold_envFrom_body fold_envFrom_body2)

lemma fold_container_body:
  "fold container_body containers (a, b, c, d, e)
     = (a, b,
        c @ concat (map (\<lambda>container. concat (map env_names (Env container))) containers),
        d @ concat (map (\<lambda>container. concat (map envFrom_names (EnvFrom container))) containers),
        e @ concat (map (\<lambda>container. concat (map envFrom_names (EnvFrom container))) containers))"
  by (induction containers arbitrary: c d e) (simp_all add: container_body_eq)

lemma fold_pod_body:
  "fold pod_body pods (a, b, c, d, e)
     = (a @ pods_volume_names pods, b @ pods_projected_names pods, c @ pods_env_names pods,
        d @ pods_envFrom_names pods, e @ pods_envFrom_names pods)"
  by (induction pods arbitrary: a b c d e)
     (simp_all add: pod_body_def fold_volume_body fold_container_body pods_volume_names_def
        pods_projected_names_def pods_env_names_def pods_envFrom_names_def)

lemma retrieveVolumesAndEnv_ok:
  "Pods_List clientset namespace = Inr pods \<Longrightarrow>
   retrieveVolumesAndEnv clientset namespace
     = (pods_volume_names pods, pods_projected_names pods, pods_env_names pods,
        pods_envFrom_names pods, pods_envFrom_names pods, None)"
  by (simp add: retrieveVolumesAndEnv_def fold_pod_body)

lemma retrieveVolumesAndEnv_failed:
  "Pods_List clientset namespace = Inl err \<Longrightarrow>
   retrieveVolumesAndEnv clientset namespace = ([], [], [], [], [], Some err)"
  by (simp add: retrieveVolumesAndEnv_def)

lemma names_loop:
  "fold (\<lambda>configmap names. names @ [ConfigMap_Name configmap]) configmaps acc
     = acc @ map ConfigMap_Name configmaps"
  by (induction configmaps arbitrary: acc) simp_all

lemma retrieveConfigMapNames_ok:
  "ConfigMaps_List clientset namespace = Inr configmaps \<Longrightarrow>
   retrieveConfigMapNames clientset namespace = (map ConfigMap_Name configmaps, None)"
  by (simp add: retrieveConfigMapNames_def names_loop)

lemma retrieveConfigMapNames_failed:
  "ConfigMaps_List clientset namespace = Inl err \<Longrightarrow>
   retrieveConfigMapNames clientset namespace = ([], Some err)"
  by (simp add: retrieveConfigMapNames_def)

lemma processNamespace_ok:
  assumes "Pods_List clientset namespace = Inr pods"
    and "ConfigMaps_List clientset namespace = Inr configmaps"
  shows "processNamespace iter render clientset namespace
           = (formatOutput render namespace (unused_names iter clientset namespace), None)"
  using assms
  by (simp add: processNamespace_def unused_names_def retrieveVolumesAndEnv_ok
        retrieveConfigMapNames_ok)

lemma processNamespace_pods_failed:
  "Pods_List clientset namespace = Inl err \<Longrightarrow>
   processNamespace iter render clientset namespace = ('''', Some err)"
  by (simp add: processNamespace_def retrieveVolumesAndEnv_failed)

lemma processNamespace_configmaps_failed:
  "Pods_List clientset namespace = Inr pods \<Longrightarrow>
   ConfigMaps_List clientset namespace = Inl err \<Longrightarrow>
   processNamespace iter render clientset namespace = ('''', Some err)"
  by (simp add: processNamespace_def retrieveVolumesAndEnv_ok retrieveConfigMapNames_failed)

lemma set_volume_names:
  "c \<in> set (volume_names volume)
     \<longleftrightarrow> (case Volume_ConfigMap volume of Some cm \<Rightarrow> Name cm = c | None \<Rightarrow> False)"
  by (cases "Volume_ConfigMap volume") (auto simp: volume_names_def)

lemma set_source_names:
  "c \<in> set (source_names source)
     \<longleftrightarrow> (case Projection_ConfigMap source of Some cm \<Rightarrow> Name cm = c | None \<Rightarrow> False)"
  by (cases "Projection_ConfigMap source") (auto simp: source_names_def)

lemma set_projected_names:
  "c \<in> set (projected_names volume)
     \<longleftrightarrow> (case Projected volume of
            Some projected \<Rightarrow>
              (\<exists>source \<in> set (Sources projected).
                 case Projection_ConfigMap source of Some cm \<Rightarrow> Name cm = c | None \<Rightarrow> False)
          | None \<Rightarrow> False)"
  by (cases "Projected volume") (simp_all add: projected_names_def set_source_names)

lemma set_env_names:
  "c \<in> set (env_names env)
     \<longleftrightarrow> (case ValueFrom env of
            Some valueFrom \<Rightarrow>
              (case ConfigMapKeyRef valueFrom of Some ref \<Rightarrow> Name ref = c | None \<Rightarrow> False)
          | None \<Rightarrow> False)"
  by (auto simp: env_names_def split: option.splits)

lemma set_envFrom_names:
  "c \<in> set (envFrom_names envFrom)
     \<longleftrightarrow> (case ConfigMapRef envFrom of Some ref \<Rightarrow> Name ref = c | None \<Rightarrow> False)"
  by (cases "ConfigMapRef envFrom") (auto simp: envFrom_names_def)

lemma set_pods_volume_names:
  "c \<in> set (pods_volume_names pods) \<longleftrightarrow> (\<exists>pod \<in> set pods. references_via_volume pod c)"
  by (simp add: pods_volume_names_def references_via_volume_def set_volume_names)

lemma set_pods_projected_names:
  "c \<in> set (pods_projected_names pods) \<longleftrightarrow> (\<exists>pod \<in> set pods. references_via_projected pod c)"
  by (simp add: pods_projected_names_def references_via_projected_def set_projected_names)

lemma set_pods_env_names:
  "c \<in> set (pods_env_names pods) \<longleftrightarrow> (\<exists>pod \<in> set pods. references_via_env pod c)"
  by (simp add: pods_env_names_def references_via_env_def set_env_names)

lemma set_pods_envFrom_names:
  "c \<in> set (pods_envFrom_names pods) \<longleftrightarrow> (\<exists>pod \<in> set pods. references_via_envFrom pod c)"
  by (simp add: pods_envFrom_names_def references_via_envFrom_def set_envFrom_names)

lemma unused_names_ok:
  assumes "range_order_ok iter"
    and "Pods_List clientset namespace = Inr pods"
    and "ConfigMaps_List clientset namespace = Inr configmaps"
  shows "unused_names iter clientset namespace
           = filter (\<lambda>name. \<not> (\<exists>pod \<in> set pods. pod_references pod name))
               (map ConfigMap_Name configmaps)"
proof -
  have "unused_names iter clientset namespace
          = filter (\<lambda>name. name \<notin> set (pods_volume_names pods) \<and>
                            name \<notin> set (pods_projected_names pods) \<and>
                            name \<notin> set (pods_env_names pods) \<and>
                            name \<notin> set (pods_envFrom_names pods))
              (map ConfigMap_Name configmaps)"
    using assms
    by (simp add: unused_names_def retrieveVolumesAndEnv_ok retrieveConfigMapNames_ok
          calculateDifference_filter removeDuplicatesAndSort_eq)
  also have "\<dots> = filter (\<lambda>name. \<not> (\<exists>pod \<in> set pods. pod_references pod name))
                     (map ConfigMap_Name configmaps)"
    by (rule filter_cong)
       (auto simp: pod_references_def set_pods_volume_names set_pods_projected_names
          set_pods_env_names set_pods_envFrom_names)
  finally show ?thesis .
qed

lemma unused_names_filter:
  assumes "ConfigMaps_List clientset namespace = Inr configmaps"
  shows "\<exists>used. unused_names iter clientset namespace
                  = filter (\<lambda>name. name \<notin> set used) (map ConfigMap_Name configmaps)"
proof -
  have "\<exists>used. unused_names iter clientset namespace
                 = calculateDifference used (fst (retrieveConfigMapNames clientset namespace))"
    by (cases "retrieveVolumesAndEnv clientset namespace")
       (auto simp: unused_names_def intro: exI)
  then show ?thesis
    by (simp add: retrieveConfigMapNames_ok [OF assms] calculateDifference_filter)
qed

lemma sorted_lexicographically_iff: "sorted_lexicographically names \<longleftrightarrow> sorted names"
proof -
  have "(a = b \<or> (a, b) \<in> lexord {(c, d). (of_char c :: nat) < of_char d}) \<longleftrightarrow> a \<le> b"
    for a b :: string
    by (auto simp: list_le_def list_less_def less_char_def)
  then show ?thesis
    by (simp add: sorted_lexicographically_def)
qed

lemma range_order_ok_rev: "range_order_ok rev"
  by (simp add: range_order_ok_def)

lemma range_order_ok_rotate1: "range_order_ok rotate1"
  by (simp add: range_order_ok_def)

lemma decimal_value_snoc:
  "decimal_value (s @ [c]) = 10 * decimal_value s + (of_char c - 48)"
  by (simp add: decimal_value_def)

lemma decimal_value_digit: "d < 10 \<Longrightarrow> decimal_value [digit d] = d"
  by (simp add: decimal_value_def digit_def)

lemma decimal_value_Sprintf_d: "decimal_value (Sprintf_d n) = n"
proof (induction n rule: Sprintf_d.induct)
  case (1 n)
  show ?case
  proof (cases "n < 10")
    case True
    then show ?thesis
      by (subst Sprintf_d.simps) (simp add: decimal_value_digit)
  next
    case False
    have "n mod 10 < 10" by simp
    then have "of_char (digit (n mod 10)) - 48 = n mod 10"
      by (simp add: digit_def)
    with False 1 show ?thesis
      by (subst Sprintf_d.simps) (simp add: decimal_value_snoc)
  qed
qed

lemma table_loop:
  "fold (\<lambda>(i, name) table. Append [Sprintf_d (i + 1), name] table) (enumerate k names) t
     = t\<lparr>lines := lines t @ map (\<lambda>(i, name). [Sprintf_d (i + 1), name]) (enumerate k names)\<rparr>"
  by (induction names arbitrary: k t) (simp_all add: Append_def)

lemma enumerate_rows:
  "map (\<lambda>(i, name). [Sprintf_d (i + 1), name]) (enumerate 0 names)
     = map (\<lambda>i. [Sprintf_d (i + 1), names ! i]) [0..<length names]"
  by (rule nth_equalityI) (simp_all add: nth_enumerate_eq)

lemma namespace_body_eq:
  "namespace_body iter render clientset namespace (out, errs)
     = (out @ namespace_report iter render clientset namespace,
        errs @ namespace_failure clientset namespace)"
proof (cases "Pods_List clientset namespace")
  case (Inl err)
  then show ?thesis
    by (simp add: processNamespace_pods_failed namespace_report_def namespace_failure_def
          failure_message_def)
next
  case pods: (Inr pods)
  show ?thesis
  proof (cases "ConfigMaps_List clientset namespace")
    case (Inl err)
    with pods show ?thesis
      by (simp add: processNamespace_configmaps_failed namespace_report_def
            namespace_failure_def failure_message_def)
  next
    case (Inr configmaps)
    with pods show ?thesis
      by (simp add: processNamespace_ok namespace_report_def namespace_failure_def)
  qed
qed

lemma namespace_loop:
  "fold (namespace_body iter render clientset) namespaces (out, errs)
     = (out @ concat (map (namespace_report iter render clientset) namespaces),
        errs @ concat (map (namespace_failure clientset) namespaces))"
  by (induction namespaces arbitrary: out errs)
     (simp_all add: namespace_body_eq del: namespace_body.simps)

lemma namespaces_loop:
  "fold (\<lambda>ns namespaces. namespaces @ [Namespace_Name ns]) namespaceList acc
     = acc @ map Namespace_Name namespaceList"
  by (induction namespaceList arbitrary: acc) simp_all

subsection \<open>The claims\<close>

text \<open>
  C1. When both listings of a namespace succeed, the report of \<^const>\<open>processNamespace\<close>
  is the formatted list \<^const>\<open>unused_names\<close>, and a ConfigMap name \<open>c\<close> is in that list
  if and only if \<open>c\<close> is in the inventory of the namespace and no Pod of the namespace
  references \<open>c\<close> by a volume's ConfigMap source, a projected volume's ConfigMap source, an
  environment variable's ConfigMap key reference, or an \<^verbatim>\<open>envFrom\<close> ConfigMap reference.
\<close>

theorem unused_iff_unreferenced:
  assumes "range_order_ok iter"
    and "Pods_List clientset namespace = Inr pods"
    and "ConfigMaps_List clientset namespace = Inr configmaps"
  shows "processNamespace iter render clientset namespace
           = (formatOutput render namespace (unused_names iter clientset namespace), None)
         \<and> (c \<in> set (unused_names iter clientset namespace)
              \<longleftrightarrow> c \<in> set (map ConfigMap_Name configmaps)
                  \<and> \<not> (\<exists>pod \<in> set pods. pod_references pod c))"
proof
  show "processNamespace iter render clientset namespace
          = (formatOutput render namespace (unused_names iter clientset namespace), None)"
    using assms(2,3) by (rule processNamespace_ok)
next
  show "c \<in> set (unused_names iter clientset namespace)
          \<longleftrightarrow> c \<in> set (map ConfigMap_Name configmaps)
              \<and> \<not> (\<exists>pod \<in> set pods. pod_references pod c)"
    unfolding unused_names_ok [OF assms] by auto
qed

theorem unused_iff_unreferenced_witness:
  "range_order_ok rev
   \<and> Pods_List example_clientset ''default'' = Inr example_pods
   \<and> ConfigMaps_List example_clientset ''default'' = Inr example_configmaps
   \<and> ''unused-cm'' \<in> set (map ConfigMap_Name example_configmaps)
   \<and> \<not> (\<exists>pod \<in> set example_pods. pod_references pod ''unused-cm'')
   \<and> ''unused-cm'' \<in> set (unused_names rev example_clientset ''default'')"
proof -
  have pods: "Pods_List example_clientset ''default'' = Inr example_pods"
    by (simp add: example_clientset_def)
  have cms: "ConfigMaps_List example_clientset ''default'' = Inr example_configmaps"
    by (simp add: example_clientset_def)
  have inv: "''unused-cm'' \<in> set (map ConfigMap_Name example_configmaps)"
    by code_simp
  have unref: "\<not> (\<exists>pod \<in> set example_pods. pod_references pod ''unused-cm'')"
    by code_simp
  from unused_iff_unreferenced [OF range_order_ok_rev pods cms, of example_render "''unused-cm''"]
    inv unref
  have "''unused-cm'' \<in> set (unused_names rev example_clientset ''default'')"
    by blast
  with range_order_ok_rev pods cms inv unref show ?thesis
    by blast
qed

text \<open>
  C2, as amended. The unused names of a namespace are a subsequence of the inventory in
  listing order. They are sorted lexicographically if the inventory listing is, and free of
  duplicates if the inventory listing is, whatever the Pods reference and however often.
\<close>

theorem unused_names_follow_inventory:
  assumes "Pods_List clientset namespace = Inr pods"
    and "ConfigMaps_List clientset namespace = Inr configmaps"
  shows "subseq (unused_names iter clientset namespace) (map ConfigMap_Name configmaps)
         \<and> (sorted_lexicographically (map ConfigMap_Name configmaps)
              \<longrightarrow> sorted_lexicographically (unused_names iter clientset namespace))
         \<and> (distinct (map ConfigMap_Name configmaps)
              \<longrightarrow> distinct (unused_names iter clientset namespace))"
proof -
  from unused_names_filter [OF assms(2)] obtain used where
    "unused_names iter clientset namespace
       = filter (\<lambda>name. name \<notin> set used) (map ConfigMap_Name configmaps)" ..
  then show ?thesis
    by (simp add: sorted_lexicographically_iff sorted_wrt_filter)
qed

theorem unused_names_follow_inventory_witness:
  "Pods_List example_clientset ''default'' = Inr example_pods
   \<and> ConfigMaps_List example_clientset ''default'' = Inr example_configmaps
   \<and> sorted_lexicographically (map ConfigMap_Name example_configmaps)
   \<and> distinct (map ConfigMap_Name example_configmaps)
   \<and> sorted_lexicographically (unused_names rev example_clientset ''default'')
   \<and> distinct (unused_names rev example_clientset ''default'')"
proof -
  have pods: "Pods_List example_clientset ''default'' = Inr example_pods"
    by (simp add: example_clientset_def)
  have cms: "ConfigMaps_List example_clientset ''default'' = Inr example_configmaps"
    by (simp add: example_clientset_def)
  have s: "sorted_lexicographically (map ConfigMap_Name example_configmaps)"
    by (simp only: sorted_lexicographically_iff) code_simp
  have d: "distinct (map ConfigMap_Name example_configmaps)"
    by code_simp
  from unused_names_follow_inventory [OF pods cms, of rev] s d pods cms show ?thesis
    by blast
qed

text \<open>
  C2, as stated, fails: namespace \<open>legacy\<close> of the example cluster has no Pods, and its
  inventory listing is out of order and has a repeated name; its unused names are neither
  sorted nor free of duplicates.
\<close>

theorem unused_names_sorted_distinct_counterexample:
  "\<not> sorted_lexicographically (unused_names rev example_clientset ''legacy'')
   \<and> \<not> distinct (unused_names rev example_clientset ''legacy'')"
  by (simp only: sorted_lexicographically_iff) code_simp

text \<open>
  C3. For every list of strings and every order in which the map is traversed,
  \<^const>\<open>removeDuplicatesAndSort\<close> returns a list that is sorted lexicographically, has no
  duplicates and has the elements of its input; and it returns the same list for the input
  with its duplicates removed first.
\<close>

theorem removeDuplicatesAndSort_sorted_distinct:
  assumes "range_order_ok iter"
  shows "sorted_lexicographically (removeDuplicatesAndSort iter slice)
         \<and> distinct (removeDuplicatesAndSort iter slice)
         \<and> set (removeDuplicatesAndSort iter slice) = set slice
         \<and> removeDuplicatesAndSort iter (remdups slice) = removeDuplicatesAndSort iter slice"
  by (simp add: removeDuplicatesAndSort_eq [OF assms] sorted_lexicographically_iff)

theorem removeDuplicatesAndSort_sorted_distinct_witness:
  "range_order_ok rotate1
   \<and> removeDuplicatesAndSort rotate1 [''b'', ''a'', ''B'', ''ab'', '''', ''a'', ''b'']
       = ['''', ''B'', ''a'', ''ab'', ''b'']
   \<and> sorted_lexicographically
         (removeDuplicatesAndSort rotate1 [''b'', ''a'', ''B'', ''ab'', '''', ''a'', ''b''])
   \<and> removeDuplicatesAndSort rotate1 (remdups [''b'', ''a'', ''B'', ''ab'', '''', ''a'', ''b''])
       = ['''', ''B'', ''a'', ''ab'', ''b'']"
proof -
  have v: "removeDuplicatesAndSort rotate1 [''b'', ''a'', ''B'', ''ab'', '''', ''a'', ''b'']
             = ['''', ''B'', ''a'', ''ab'', ''b'']"
    by code_simp
  from removeDuplicatesAndSort_sorted_distinct
         [OF range_order_ok_rotate1, of "[''b'', ''a'', ''B'', ''ab'', '''', ''a'', ''b'']"]
    range_order_ok_rotate1 v
  show ?thesis
    by metis
qed

text \<open>
  C4. Whatever the Pod listing returns, the fourth slice (\<^verbatim>\<open>envFromCM\<close>) and the fifth
  slice (\<^verbatim>\<open>envFromContainerCM\<close>) returned by \<^const>\<open>retrieveVolumesAndEnv\<close> are the same
  sequence; hence the used names with both slices deduplicated and appended are, as a set,
  the used names with only one of them, and the difference against any inventory is the
  same list.
\<close>

theorem envFrom_slices_equal:
  assumes "retrieveVolumesAndEnv clientset namespace
             = (volumesCM, volumesProjectedCM, envCM, envFromCM, envFromContainerCM, err)"
  shows "envFromContainerCM = envFromCM
         \<and> set ((((removeDuplicatesAndSort iter volumesCM
                      @ removeDuplicatesAndSort iter volumesProjectedCM)
                     @ removeDuplicatesAndSort iter envCM)
                    @ removeDuplicatesAndSort iter envFromCM)
                   @ removeDuplicatesAndSort iter envFromContainerCM)
             = set (((removeDuplicatesAndSort iter volumesCM
                        @ removeDuplicatesAndSort iter volumesProjectedCM)
                       @ removeDuplicatesAndSort iter envCM)
                      @ removeDuplicatesAndSort iter envFromCM)
         \<and> calculateDifference
               ((((removeDuplicatesAndSort iter volumesCM
                     @ removeDuplicatesAndSort iter volumesProjectedCM)
                    @ removeDuplicatesAndSort iter envCM)
                   @ removeDuplicatesAndSort iter envFromCM)
                  @ removeDuplicatesAndSort iter envFromContainerCM)
               names
             = calculateDifference
                 (((removeDuplicatesAndSort iter volumesCM
                      @ removeDuplicatesAndSort iter volumesProjectedCM)
                     @ removeDuplicatesAndSort iter envCM)
                    @ removeDuplicatesAndSort iter envFromCM)
                 names"
proof -
  have eq: "envFromContainerCM = envFromCM"
  proof (cases "Pods_List clientset namespace")
    case (Inl e)
    from retrieveVolumesAndEnv_failed [OF Inl] assms show ?thesis
      by simp
  next
    case (Inr pods)
    from retrieveVolumesAndEnv_ok [OF Inr] assms show ?thesis
      by simp
  qed
  then show ?thesis
    by (simp add: calculateDifference_filter)
qed

theorem envFrom_slices_equal_witness:
  "retrieveVolumesAndEnv example_clientset ''default''
     = ([''app-config'', ''app-config''], [''proj-cm''], [''env-cm''],
        [''db-secrets'', ''app-config'', ''db-secrets'', ''db-secrets''],
        [''db-secrets'', ''app-config'', ''db-secrets'', ''db-secrets''], None)
   \<and> calculateDifference
         ((((removeDuplicatesAndSort rev [''app-config'', ''app-config'']
               @ removeDuplicatesAndSort rev [''proj-cm''])
              @ removeDuplicatesAndSort rev [''env-cm''])
             @ removeDuplicatesAndSort rev
                 [''db-secrets'', ''app-config'', ''db-secrets'', ''db-secrets''])
            @ removeDuplicatesAndSort rev
                [''db-secrets'', ''app-config'', ''db-secrets'', ''db-secrets''])
         [''app-config'', ''unused-cm'']
       = calculateDifference
           (((removeDuplicatesAndSort rev [''app-config'', ''app-config'']
                @ removeDuplicatesAndSort rev [''proj-cm''])
               @ removeDuplicatesAndSort rev [''env-cm''])
              @ removeDuplicatesAndSort rev
                  [''db-secrets'', ''app-config'', ''db-secrets'', ''db-secrets''])
           [''app-config'', ''unused-cm'']"
proof -
  have r: "retrieveVolumesAndEnv example_clientset ''default''
             = ([''app-config'', ''app-config''], [''proj-cm''], [''env-cm''],
                [''db-secrets'', ''app-config'', ''db-secrets'', ''db-secrets''],
                [''db-secrets'', ''app-config'', ''db-secrets'', ''db-secrets''], None)"
    by code_simp
  from envFrom_slices_equal [OF r, of rev "[''app-config'', ''unused-cm'']"] r show ?thesis
    by blast
qed

text \<open>
  C5. If the Pod listing of the namespace fails, \<^const>\<open>retrieveVolumesAndEnv\<close> returns the
  error of the listing call, and each of the five slices it returns is \<^verbatim>\<open>nil\<close>.
\<close>

theorem pod_listing_failure_propagates:
  assumes "Pods_List clientset namespace = Inl err"
  shows "retrieveVolumesAndEnv clientset namespace = ([], [], [], [], [], Some err)"
  using assms by (simp add: retrieveVolumesAndEnv_def)

theorem pod_listing_failure_propagates_witness:
  "Pods_List example_clientset ''kube-system'' = Inl (Error ''pods is forbidden'')
   \<and> retrieveVolumesAndEnv example_clientset ''kube-system''
       = ([], [], [], [], [], Some (Error ''pods is forbidden''))"
proof -
  have f: "Pods_List example_clientset ''kube-system'' = Inl (Error ''pods is forbidden'')"
    by (simp add: example_clientset_def)
  from pod_listing_failure_propagates [OF f] f show ?thesis
    by blast
qed

text \<open>
  C6. For every namespace name, \<^const>\<open>formatOutput\<close> applied to the empty sequence
  returns exactly the message \<^verbatim>\<open>No unused config maps found in the namespace: \<close> followed
  by the namespace name, a single line when the name has no line break. In particular this is the report of \<^const>\<open>processNamespace\<close>
  whenever the ConfigMap listing of the namespace is empty, whatever its Pods reference.
\<close>

theorem no_unused_message:
  "formatOutput render namespace []
     = ''No unused config maps found in the namespace: '' @ namespace
   \<and> (Pods_List clientset namespace = Inr pods
        \<and> ConfigMaps_List clientset namespace = Inr []
        \<longrightarrow> processNamespace iter render clientset namespace
              = (''No unused config maps found in the namespace: '' @ namespace, None))
   \<and> (CHR 0x0A \<notin> set namespace \<longrightarrow> CHR 0x0A \<notin> set (formatOutput render namespace []))"
proof -
  have empty: "formatOutput render namespace []
                 = ''No unused config maps found in the namespace: '' @ namespace"
    by (simp add: formatOutput_def)
  have "processNamespace iter render clientset namespace
          = (''No unused config maps found in the namespace: '' @ namespace, None)"
    if "Pods_List clientset namespace = Inr pods"
      and "ConfigMaps_List clientset namespace = Inr []"
  proof -
    from unused_names_filter [OF that(2)]
    have "unused_names iter clientset namespace = []"
      by simp
    with processNamespace_ok [OF that] empty show ?thesis
      by simp
  qed
  moreover have "CHR 0x0A \<notin> set (formatOutput render namespace [])"
    if "CHR 0x0A \<notin> set namespace"
    using that by (simp add: empty)
  ultimately show ?thesis
    using empty by blast
qed

theorem no_unused_message_witness:
  "Pods_List example_clientset ''jobs'' = Inr example_pods
   \<and> ConfigMaps_List example_clientset ''jobs'' = Inr []
   \<and> processNamespace rev example_render example_clientset ''jobs''
       = (''No unused config maps found in the namespace: jobs'', None)"
proof -
  have pods: "Pods_List example_clientset ''jobs'' = Inr example_pods"
    by (simp add: example_clientset_def)
  have cms: "ConfigMaps_List example_clientset ''jobs'' = Inr []"
    by (simp add: example_clientset_def)
  from no_unused_message [of example_render "''jobs''" example_clientset example_pods rev]
    pods cms
  show ?thesis
    by simp
qed

text \<open>
  C7. For every namespace name and every non-empty sequence of names, the result of
  \<^const>\<open>formatOutput\<close> is the header line \<^verbatim>\<open>Unused Config Maps in Namespace: \<close> with the
  namespace name, a line break, and the rendering of the table whose header is \<^verbatim>\<open>#\<close>,
  \<^verbatim>\<open>Config Map Name\<close> and which has one row per name, in the order of the sequence; row
  \<open>i\<close> (counted from 0) holds the decimal numeral of \<open>i + 1\<close> and the \<open>i\<close>-th name.
\<close>

theorem report_table:
  assumes "configMapNames \<noteq> []"
  shows "formatOutput render namespace configMapNames
           = ''Unused Config Maps in Namespace: '' @ namespace @ newline
               @ render \<lparr>headers = [''#'', ''Config Map Name''],
                         lines = map (\<lambda>i. [Sprintf_d (i + 1), configMapNames ! i])
                                   [0..<length configMapNames]\<rparr>
         \<and> (\<forall>i < length configMapNames. decimal_value (Sprintf_d (i + 1)) = i + 1)"
proof -
  have table:
    "fold (\<lambda>(i, name) table. Append [Sprintf_d (i + 1), name] table)
       (enumerate 0 configMapNames) (SetHeader [''#'', ''Config Map Name''] NewWriter)
     = \<lparr>headers = [''#'', ''Config Map Name''],
        lines = map (\<lambda>i. [Sprintf_d (i + 1), configMapNames ! i]) [0..<length configMapNames]\<rparr>"
    unfolding table_loop enumerate_rows by (simp add: SetHeader_def NewWriter_def)
  from assms have "length configMapNames \<noteq> 0"
    by simp
  then have "formatOutput render namespace configMapNames
               = ''Unused Config Maps in Namespace: '' @ namespace @ newline
                   @ render \<lparr>headers = [''#'', ''Config Map Name''],
                             lines = map (\<lambda>i. [Sprintf_d (i + 1), configMapNames ! i])
                                       [0..<length configMapNames]\<rparr>"
    unfolding formatOutput_def Let_def table by (simp only: if_False)
  then show ?thesis
    by (simp only: decimal_value_Sprintf_d) simp
qed

theorem report_table_witness:
  "[''another-unused'', ''unused-cm''] \<noteq> []
   \<and> formatOutput example_render ''default'' [''another-unused'', ''unused-cm'']
       = ''Unused Config Maps in Namespace: default'' @ newline
           @ ''| # | Config Map Name |'' @ newline
           @ ''| 1 | another-unused |'' @ newline
           @ ''| 2 | unused-cm |'' @ newline"
proof -
  have ne: "[''another-unused'', ''unused-cm''] \<noteq> []"
    by simp
  have r: "example_render
             \<lparr>headers = [''#'', ''Config Map Name''],
              lines = map (\<lambda>i. [Sprintf_d (i + 1), [''another-unused'', ''unused-cm''] ! i])
                        [0..<length [''another-unused'', ''unused-cm'']]\<rparr>
           = ''| # | Config Map Name |'' @ newline
               @ ''| 1 | another-unused |'' @ newline
               @ ''| 2 | unused-cm |'' @ newline"
    by code_simp
  from report_table [OF ne, of example_render "''default''"] r ne show ?thesis
    by simp
qed

text \<open>
  C8. The result of \<^const>\<open>processNamespace\<close> for a namespace depends only on what the two
  listing calls return: the order in which the Go runtime traverses the maps of
  \<^const>\<open>removeDuplicatesAndSort\<close>, the one choice the program does not fix, does not change
  the output string or the error.
\<close>

theorem processNamespace_deterministic:
  assumes "range_order_ok iter" and "range_order_ok iter'"
  shows "processNamespace iter render clientset namespace
           = processNamespace iter' render clientset namespace"
  using assms
  by (simp add: processNamespace_def removeDuplicatesAndSort_eq split: prod.splits option.splits)

theorem processNamespace_deterministic_witness:
  "range_order_ok rev \<and> range_order_ok rotate1
   \<and> processNamespace rev example_render example_clientset ''default''
       = processNamespace rotate1 example_render example_clientset ''default''"
  using processNamespace_deterministic
          [OF range_order_ok_rev range_order_ok_rotate1, of example_render example_clientset
             "''default''"]
    range_order_ok_rev range_order_ok_rotate1
  by blast

text \<open>
  C9. When the set-up of \<^const>\<open>GetUnusedConfigmaps\<close> succeeds, standard output is the
  concatenation, in listing order, of what each namespace contributes by itself: nothing for
  a namespace whose Pod listing or ConfigMap listing fails, the whole report and a blank line
  for any other. Standard error is the concatenation of one message per failed namespace,
  and the process does not exit with a status. So a failure skips only its own namespace,
  and every namespace after it is still processed.
\<close>

theorem failed_namespace_is_skipped:
  assumes "BuildConfigFromFlags host '''' (getKubeConfigPath host) = Inr config"
    and "NewForConfig host config = Inr clientset"
    and "Namespaces_List clientset = Inr namespaceList"
  shows "stdout (GetUnusedConfigmaps iter render host)
           = concat (map (\<lambda>ns. namespace_report iter render clientset (Namespace_Name ns))
                       namespaceList)
         \<and> stderr (GetUnusedConfigmaps iter render host)
             = concat (map (\<lambda>ns. namespace_failure clientset (Namespace_Name ns)) namespaceList)
         \<and> exit_status (GetUnusedConfigmaps iter render host) = None"
  using assms
  by (simp add: GetUnusedConfigmaps_def namespaces_loop namespace_loop comp_def)

theorem failed_namespace_is_skipped_witness:
  "BuildConfigFromFlags example_host '''' (getKubeConfigPath example_host) = Inr ()
   \<and> NewForConfig example_host () = Inr example_clientset
   \<and> Namespaces_List example_clientset
       = Inr [\<lparr>Namespace_Name = ''kube-system''\<rparr>, \<lparr>Namespace_Name = ''default''\<rparr>,
              \<lparr>Namespace_Name = ''staging''\<rparr>, \<lparr>Namespace_Name = ''empty-ns''\<rparr>]
   \<and> stdout (GetUnusedConfigmaps rev example_render example_host)
       = ''Unused Config Maps in Namespace: default'' @ newline
           @ ''| # | Config Map Name |'' @ newline
           @ ''| 1 | another-unused |'' @ newline
           @ ''| 2 | unused-cm |'' @ newline @ newline @ newline
           @ ''No unused config maps found in the namespace: empty-ns'' @ newline @ newline
   \<and> stderr (GetUnusedConfigmaps rev example_render example_host)
       = ''Failed to process namespace kube-system: pods is forbidden'' @ newline
           @ ''Failed to process namespace staging: request timed out'' @ newline"
proof -
  have b: "BuildConfigFromFlags example_host '''' (getKubeConfigPath example_host) = Inr ()"
    by (simp add: example_host_def)
  have c: "NewForConfig example_host () = Inr example_clientset"
    by (simp add: example_host_def)
  have n: "Namespaces_List example_clientset
             = Inr [\<lparr>Namespace_Name = ''kube-system''\<rparr>, \<lparr>Namespace_Name = ''default''\<rparr>,
                    \<lparr>Namespace_Name = ''staging''\<rparr>, \<lparr>Namespace_Name = ''empty-ns''\<rparr>]"
    by (simp add: example_clientset_def)
  have out: "concat (map (\<lambda>ns. namespace_report rev example_render example_clientset
                                 (Namespace_Name ns))
                       [\<lparr>Namespace_Name = ''kube-system''\<rparr>, \<lparr>Namespace_Name = ''default''\<rparr>,
                        \<lparr>Namespace_Name = ''staging''\<rparr>, \<lparr>Namespace_Name = ''empty-ns''\<rparr>])
             = ''Unused Config Maps in Namespace: default'' @ newline
                 @ ''| # | Config Map Name |'' @ newline
                 @ ''| 1 | another-unused |'' @ newline
                 @ ''| 2 | unused-cm |'' @ newline @ newline @ newline
                 @ ''No unused config maps found in the namespace: empty-ns'' @ newline @ newline"
    by code_simp
  have err: "concat (map (\<lambda>ns. namespace_failure example_clientset (Namespace_Name ns))
                       [\<lparr>Namespace_Name = ''kube-system''\<rparr>, \<lparr>Namespace_Name = ''default''\<rparr>,
                        \<lparr>Namespace_Name = ''staging''\<rparr>, \<lparr>Namespace_Name = ''empty-ns''\<rparr>])
             = ''Failed to process namespace kube-system: pods is forbidden'' @ newline
                 @ ''Failed to process namespace staging: request timed out'' @ newline"
    by code_simp
  from failed_namespace_is_skipped [OF b c n, of rev example_render] b c n out err
  show ?thesis
    by simp
qed

text \<open>
  C10. The result of \<^const>\<open>calculateDifference\<close> is the inventory list with exactly the
  occurrences of names that are in the used list removed: a subsequence of the inventory, in
  the inventory's order and with the inventory's repetitions. With an empty used list it
  is the inventory list itself, neither sorted nor deduplicated.
\<close>

theorem calculateDifference_subsequence:
  "calculateDifference usedConfigMaps configMapNames
     = filter (\<lambda>name. name \<notin> set usedConfigMaps) configMapNames
   \<and> subseq (calculateDifference usedConfigMaps configMapNames) configMapNames
   \<and> count_list (calculateDifference usedConfigMaps configMapNames) name
       = (if name \<in> set usedConfigMaps then 0 else count_list configMapNames name)
   \<and> calculateDifference [] configMapNames = configMapNames"
proof -
  have "count_list (filter (\<lambda>name. name \<notin> set usedConfigMaps) configMapNames) name
          = (if name \<in> set usedConfigMaps then 0 else count_list configMapNames name)"
    by (induction configMapNames) auto
  then show ?thesis
    by (simp add: calculateDifference_filter)
qed

theorem calculateDifference_subsequence_witness:
  "calculateDifference [''a''] [''c'', ''a'', ''b'', ''c'', ''a''] = [''c'', ''b'', ''c'']
   \<and> count_list (calculateDifference [''a''] [''c'', ''a'', ''b'', ''c'', ''a'']) ''c'' = 2"
proof -
  have "filter (\<lambda>name. name \<notin> set [''a'']) [''c'', ''a'', ''b'', ''c'', ''a''] = [''c'', ''b'', ''c'']"
    by simp
  moreover have "count_list [''c'', ''a'', ''b'', ''c'', ''a''] ''c'' = 2"
    by simp
  ultimately show ?thesis
    using calculateDifference_subsequence [of "[''a'']" "[''c'', ''a'', ''b'', ''c'', ''a'']" "''c''"]
    by simp
qed

end
